theory Spec2Isabelle
  imports Main "HOL-Library.Word"
begin

unbundle bit_operations_syntax

section \<open>Values shared by the whole development\<close>

type_synonym byte = "8 word"

text \<open>
  Go error values.  \<open>Errorf\<close> carries the message of a \<^verbatim>\<open>fmt.Errorf\<close> call of
  \<^verbatim>\<open>keys/key.go\<close>; \<open>InvalidByteError\<close> and \<open>ErrLength\<close> are the two errors of
  \<^verbatim>\<open>encoding/hex\<close>, \<open>ErrSyntax\<close> and \<open>ErrRange\<close> the two of \<^verbatim>\<open>strconv\<close>;
  \<open>Wrap\<close> is \<^verbatim>\<open>errors.Wrap(err, msg)\<close>, and \<open>LibError\<close> is an error value produced
  inside a library the repository calls.
\<close>

datatype error =
    Errorf string
  | InvalidByteError char
  | ErrLength
  | ErrSyntax
  | ErrRange
  | Wrap error string
  | LibError string

text \<open>
  Run-time panics are kept apart from returned errors: a Go function whose signature
  ends in \<^verbatim>\<open>error\<close> either returns a value, returns an error, or panics.
\<close>

datatype panic =
    NilPointerDereference
  | SliceBoundsOutOfRange nat nat

datatype 'a outcome =
    is_Returned: Returned 'a
  | is_Failed: Failed error
  | is_Panicked: Panicked panic

definition obind :: "'a outcome \<Rightarrow> ('a \<Rightarrow> 'b outcome) \<Rightarrow> 'b outcome" where
  "obind m f = (case m of Returned x \<Rightarrow> f x | Failed e \<Rightarrow> Failed e | Panicked p \<Rightarrow> Panicked p)"

section \<open>The libraries \<^verbatim>\<open>keys/key.go\<close> calls\<close>

text \<open>
  \<^verbatim>\<open>crypto.PrivKey\<close> and \<^verbatim>\<open>crypto.PubKey\<close> are interfaces.  The secp256k1
  implementations are the array types \<^verbatim>\<open>[32]byte\<close> and \<^verbatim>\<open>[33]byte\<close>; any other
  registered implementation is kept with its type name.
\<close>

datatype PrivKey = PrivKeySecp256k1 "byte list" | PrivKeyOther string "byte list"

datatype PubKey = PubKeySecp256k1 "byte list" | PubKeyOther string "byte list"

text \<open>
  The functions of other packages are parameters of the model: every theorem below holds
  whatever they compute.  \<open>'pt\<close> is btcec's \<^verbatim>\<open>*PublicKey\<close>.
\<close>

record 'pt btcec =
  ParsePubKey :: "byte list \<Rightarrow> error + 'pt"
  SerializeCompressed :: "'pt \<Rightarrow> byte list"
  SerializeUncompressed :: "'pt \<Rightarrow> byte list"

text \<open>\<open>h.Write(data); h.Sum(nil)\<close> on a fresh hasher is the digest of \<open>data\<close>.\<close>

record hashes =
  SHA256 :: "byte list \<Rightarrow> byte list"
  RIPEMD160 :: "byte list \<Rightarrow> byte list"

record tmcrypto =
  PrivKey_Sign :: "PrivKey \<Rightarrow> byte list \<Rightarrow> error + byte list"
  PrivKey_PubKey :: "PrivKey \<Rightarrow> PubKey"
  PubKey_Address :: "PubKey \<Rightarrow> byte list"
  PubKey_Bytes :: "PubKey \<Rightarrow> byte list"
  AccAddress_String :: "byte list \<Rightarrow> string"

text \<open>
  What the two keystore loaders reach outside the process: the file system
  (\<^verbatim>\<open>ioutil.ReadFile\<close>), \<^verbatim>\<open>json.Unmarshal\<close> into an \<^verbatim>\<open>EncryptedKeyJSON\<close> (type
  \<open>'ekj\<close>), \<^verbatim>\<open>decryptKey\<close> of the same package, which lives in another file, and
  \<^verbatim>\<open>mintkey.UnarmorDecryptPrivKey\<close>.
\<close>

record 'ekj keystore_io =
  ReadFile :: "string \<Rightarrow> error + byte list"
  json_Unmarshal :: "byte list \<Rightarrow> error + 'ekj"
  decryptKey :: "'ekj \<Rightarrow> string \<Rightarrow> error + byte list"
  UnarmorDecryptPrivKey :: "string \<Rightarrow> string \<Rightarrow> error + PrivKey"

text \<open>The calls a loader made, in order, so that "never reads the file" can be stated.\<close>

datatype 'ekj call =
    CallReadFile string
  | CallUnmarshal "byte list"
  | CallDecryptKey 'ekj string
  | CallUnarmorDecrypt string string

text \<open>\<^verbatim>\<open>string(b)\<close> for a byte slice \<open>b\<close>.\<close>

definition string_of_bytes :: "byte list \<Rightarrow> string" where
  "string_of_bytes bs = map (\<lambda>b. char_of (unat b)) bs"

section \<open>\<^verbatim>\<open>keyManager\<close>\<close>

text \<open>A nil \<^verbatim>\<open>privKey\<close> interface is \<open>None\<close>; a nil \<^verbatim>\<open>addr\<close> slice is \<open>[]\<close>.\<close>

record keyManager =
  privKey :: "PrivKey option"
  addr :: "byte list"
  mnemonic :: string

definition keyManager_zero :: keyManager where
  "keyManager_zero = \<lparr>privKey = None, addr = [], mnemonic = []\<rparr>"

text \<open>
  Both loaders return the error (\<open>None\<close> for nil), the manager after the call and the
  calls made.
\<close>

definition recoveryFromKeyStore ::
  "'ekj keystore_io \<Rightarrow> tmcrypto \<Rightarrow> keyManager \<Rightarrow> string \<Rightarrow> string
     \<Rightarrow> error option \<times> keyManager \<times> 'ekj call list" where
  "recoveryFromKeyStore io tm k keystoreFile auth =
     (if auth = [] then (Some (Errorf ''Password is missing ''), k, [])
      else case ReadFile io keystoreFile of
        Inl err \<Rightarrow> (Some err, k, [CallReadFile keystoreFile])
      | Inr keyJson \<Rightarrow>
         (case json_Unmarshal io keyJson of
            Inl err \<Rightarrow> (Some err, k, [CallReadFile keystoreFile, CallUnmarshal keyJson])
          | Inr encryptedKey \<Rightarrow>
             (let calls = [CallReadFile keystoreFile, CallUnmarshal keyJson,
                           CallDecryptKey encryptedKey auth]
              in case decryptKey io encryptedKey auth of
                   Inl err \<Rightarrow> (Some err, k, calls)
                 | Inr keyBytes \<Rightarrow>
                    if length keyBytes \<noteq> 32
                    then (Some (Errorf ''Len of Keybytes is not equal to 32 ''), k, calls)
                    else
                      let privKey' = PrivKeySecp256k1 (take 32 keyBytes);
                          addr' = PubKey_Address tm (PrivKey_PubKey tm privKey')
                      in (None, k\<lparr>addr := addr', privKey := Some privKey'\<rparr>, calls))))"

definition ImportKeystore ::
  "'ekj keystore_io \<Rightarrow> tmcrypto \<Rightarrow> keyManager \<Rightarrow> string \<Rightarrow> string
     \<Rightarrow> error option \<times> keyManager \<times> 'ekj call list" where
  "ImportKeystore io tm k keystoreFile passphrase =
     (if passphrase = [] then (Some (Errorf ''Password is missing ''), k, [])
      else case ReadFile io keystoreFile of
        Inl err \<Rightarrow> (Some err, k, [CallReadFile keystoreFile])
      | Inr armor \<Rightarrow>
         (let calls = [CallReadFile keystoreFile,
                       CallUnarmorDecrypt (string_of_bytes armor) passphrase]
          in case UnarmorDecryptPrivKey io (string_of_bytes armor) passphrase of
               Inl err \<Rightarrow> (Some (Wrap err ''couldn't import private key''), k, calls)
             | Inr privKey' \<Rightarrow>
                 let addr' = PubKey_Address tm (PrivKey_PubKey tm privKey')
                 in (None, k\<lparr>addr := addr', privKey := Some privKey'\<rparr>, calls)))"

definition NewKeyStoreKeyManager ::
  "'ekj keystore_io \<Rightarrow> tmcrypto \<Rightarrow> string \<Rightarrow> string \<Rightarrow> keyManager \<times> error option" where
  "NewKeyStoreKeyManager io tm file auth =
     (case recoveryFromKeyStore io tm keyManager_zero file auth of
        (err, k, _) \<Rightarrow> (k, err))"

definition NewKeystoreByImportKeystore ::
  "'ekj keystore_io \<Rightarrow> tmcrypto \<Rightarrow> string \<Rightarrow> string \<Rightarrow> keyManager \<times> error option" where
  "NewKeystoreByImportKeystore io tm file auth =
     (case ImportKeystore io tm keyManager_zero file auth of
        (err, k, _) \<Rightarrow> (k, err))"


section \<open>\<^verbatim>\<open>encoding/hex\<close>\<close>

definition fromHexChar :: "char \<Rightarrow> byte option" where
  "fromHexChar c =
     (let n = (of_char c :: nat) in
      if of_char CHR ''0'' \<le> n \<and> n \<le> of_char CHR ''9'' then Some (of_nat (n - of_char CHR ''0''))
      else if of_char CHR ''a'' \<le> n \<and> n \<le> of_char CHR ''f''
        then Some (of_nat (n - of_char CHR ''a'' + 10))
      else if of_char CHR ''A'' \<le> n \<and> n \<le> of_char CHR ''F''
        then Some (of_nat (n - of_char CHR ''A'' + 10))
      else None)"

text \<open>
  \<^verbatim>\<open>hex.DecodeString\<close>: two characters a byte, the first bad character reported
  as it is met, and a dangling last character reported as \<^verbatim>\<open>ErrLength\<close> when it
  is a hexadecimal digit itself.
\<close>

fun hex_DecodeString :: "string \<Rightarrow> error + byte list" where
  "hex_DecodeString [] = Inr []"
| "hex_DecodeString [c] =
     (case fromHexChar c of None \<Rightarrow> Inl (InvalidByteError c) | Some _ \<Rightarrow> Inl ErrLength)"
| "hex_DecodeString (c # d # rest) =
     (case fromHexChar c of
        None \<Rightarrow> Inl (InvalidByteError c)
      | Some a \<Rightarrow>
         (case fromHexChar d of
            None \<Rightarrow> Inl (InvalidByteError d)
          | Some b \<Rightarrow>
             (case hex_DecodeString rest of
                Inl err \<Rightarrow> Inl err
              | Inr bs \<Rightarrow> Inr ((push_bit 4 a OR b) # bs))))"

definition hextable :: string where
  "hextable = ''0123456789abcdef''"

definition hex_EncodeToString :: "byte list \<Rightarrow> string" where
  "hex_EncodeToString src =
     concat (map (\<lambda>v. [hextable ! unat (drop_bit 4 v), hextable ! unat (v AND 15)]) src)"

text \<open>\<^verbatim>\<open>[]byte(s)\<close> for a string \<open>s\<close>.\<close>

definition bytes_of_string :: "string \<Rightarrow> byte list" where
  "bytes_of_string s = map of_char s"

text \<open>
  \<^verbatim>\<open>copy(dst, src)\<close>: the first \<open>min (len dst) (len src)\<close> elements of \<open>dst\<close> are
  overwritten, the length of \<open>dst\<close> stays.
\<close>

definition copy_bytes :: "byte list \<Rightarrow> byte list \<Rightarrow> byte list" where
  "copy_bytes dst src = take (length dst) src @ drop (length src) dst"

section \<open>Public keys and addresses (\<^verbatim>\<open>keys/key.go\<close>)\<close>

definition GetCompressedPubKey :: "'pt btcec \<Rightarrow> string \<Rightarrow> error + byte list" where
  "GetCompressedPubKey ec uncompressedPubKey =
     (case hex_DecodeString uncompressedPubKey of
        Inl err \<Rightarrow> Inl err
      | Inr uncompressedPubKeyHex \<Rightarrow>
         (case ParsePubKey ec uncompressedPubKeyHex of
            Inl err \<Rightarrow> Inl err
          | Inr pubkey \<Rightarrow> Inr (SerializeCompressed ec pubkey)))"

definition GetCompressedAddress :: "'pt btcec \<Rightarrow> hashes \<Rightarrow> string \<Rightarrow> error + byte list" where
  "GetCompressedAddress ec h uncompressedPubKey =
     (case GetCompressedPubKey ec uncompressedPubKey of
        Inl err \<Rightarrow> Inl err
      | Inr pubKey \<Rightarrow>
          let sha = SHA256 h pubKey
          in Inr (RIPEMD160 h sha))"

definition GetUCAddressBech32 ::
  "'pt btcec \<Rightarrow> hashes \<Rightarrow> tmcrypto \<Rightarrow> string \<Rightarrow> error + string" where
  "GetUCAddressBech32 ec h tm uncompressedPubKey =
     (case GetCompressedAddress ec h uncompressedPubKey of
        Inl err \<Rightarrow> Inl err
      | Inr addr' \<Rightarrow> Inr (AccAddress_String tm addr'))"

definition GetBech32AddrByPubkeyStr :: "tmcrypto \<Rightarrow> string \<Rightarrow> error + string" where
  "GetBech32AddrByPubkeyStr tm pubkeyStr =
     (if length pubkeyStr = 0 then Inl (Errorf ''pubkey invalid'')
      else case hex_DecodeString pubkeyStr of
        Inl err \<Rightarrow> Inl err
      | Inr pubkeyHex \<Rightarrow>
          let pk = copy_bytes (replicate 33 0) pubkeyHex;
              addr' = PubKey_Address tm (PubKeySecp256k1 pk)
          in Inr (AccAddress_String tm addr'))"

definition GetBech32AddrByPubkey :: "tmcrypto \<Rightarrow> byte list \<Rightarrow> error + string" where
  "GetBech32AddrByPubkey tm pubkey = Inr (AccAddress_String tm (PubKey_Address tm (PubKeySecp256k1 pubkey)))"

section \<open>Signing (\<^verbatim>\<open>keys/key.go\<close>)\<close>

record ('msg, 'fee) StdSignMsg =
  ChainID :: string
  AccountNumber :: "64 word"
  Sequence :: "64 word"
  Fee :: 'fee
  Msgs :: "'msg list"
  Memo :: string

record StdSignature =
  PubKey :: PubKey
  Signature :: "byte list"

text \<open>\<^verbatim>\<open>auth.NewStdTx(msgs, fee, sigs, memo)\<close> fills the four fields of a \<^verbatim>\<open>StdTx\<close>.\<close>

record ('msg, 'fee) StdTx =
  tx_Msgs :: "'msg list"
  tx_Fee :: 'fee
  tx_Signatures :: "StdSignature list"
  tx_Memo :: string

definition NewStdTx ::
  "'msg list \<Rightarrow> 'fee \<Rightarrow> StdSignature list \<Rightarrow> string \<Rightarrow> ('msg, 'fee) StdTx" where
  "NewStdTx msgs fee sigs memo =
     \<lparr>tx_Msgs = msgs, tx_Fee = fee, tx_Signatures = sigs, tx_Memo = memo\<rparr>"

text \<open>
  \<^verbatim>\<open>msg.Bytes()\<close> of the SDK's \<^verbatim>\<open>tx\<close> package and the amino codec
  \<^verbatim>\<open>tx.Cdc.MarshalBinaryLengthPrefixed\<close>.
\<close>

record ('msg, 'fee) txcodec =
  StdSignMsg_Bytes :: "('msg, 'fee) StdSignMsg \<Rightarrow> byte list"
  MarshalBinaryLengthPrefixed :: "('msg, 'fee) StdTx \<Rightarrow> error + byte list"

text \<open>
  The test \<^verbatim>\<open>if err != nil\<close> that opens \<^verbatim>\<open>makeSignature\<close> reads the named result
  \<^verbatim>\<open>err\<close>, which is nil there: it never returns.  Calling \<^verbatim>\<open>Sign\<close> on a nil
  \<^verbatim>\<open>privKey\<close> interface panics.
\<close>

definition makeSignature ::
  "('msg, 'fee) txcodec \<Rightarrow> tmcrypto \<Rightarrow> keyManager \<Rightarrow> ('msg, 'fee) StdSignMsg
     \<Rightarrow> StdSignature outcome" where
  "makeSignature cdc tm k msg =
     (case privKey k of
        None \<Rightarrow> Panicked NilPointerDereference
      | Some sk \<Rightarrow>
         (case PrivKey_Sign tm sk (StdSignMsg_Bytes cdc msg) of
            Inl err \<Rightarrow> Failed err
          | Inr sigBytes \<Rightarrow>
              Returned \<lparr>PubKey = PrivKey_PubKey tm sk, Signature = sigBytes\<rparr>))"

definition Sign ::
  "('msg, 'fee) txcodec \<Rightarrow> tmcrypto \<Rightarrow> keyManager \<Rightarrow> ('msg, 'fee) StdSignMsg
     \<Rightarrow> byte list outcome" where
  "Sign cdc tm k msg =
     (case makeSignature cdc tm k msg of
        Panicked p \<Rightarrow> Panicked p
      | Failed err \<Rightarrow> Failed err
      | Returned sig \<Rightarrow>
          (let newTx = NewStdTx (Msgs msg) (Fee msg) [sig] (Memo msg)
           in (case MarshalBinaryLengthPrefixed cdc newTx of
                 Inl err \<Rightarrow> Failed err
               | Inr bz \<Rightarrow> Returned bz)))"

definition SignBytes :: "tmcrypto \<Rightarrow> keyManager \<Rightarrow> byte list \<Rightarrow> byte list outcome" where
  "SignBytes tm k msg =
     (case privKey k of
        None \<Rightarrow> Panicked NilPointerDereference
      | Some sk \<Rightarrow> (case PrivKey_Sign tm sk msg of Inl err \<Rightarrow> Failed err | Inr s \<Rightarrow> Returned s))"

definition GetPrivKey :: "keyManager \<Rightarrow> PrivKey option" where
  "GetPrivKey k = privKey k"

definition GetAddr :: "keyManager \<Rightarrow> byte list" where
  "GetAddr k = addr k"

text \<open>\<^verbatim>\<open>Bytes()[5:]\<close> drops the five bytes amino puts in front of the key.\<close>

definition GetUCPubKey :: "'pt btcec \<Rightarrow> tmcrypto \<Rightarrow> keyManager \<Rightarrow> byte list outcome" where
  "GetUCPubKey ec tm k =
     (case GetPrivKey k of
        None \<Rightarrow> Panicked NilPointerDereference
      | Some sk \<Rightarrow>
          (let bz = PubKey_Bytes tm (PrivKey_PubKey tm sk)
           in if length bz < 5 then Panicked (SliceBoundsOutOfRange 5 (length bz))
              else (case ParsePubKey ec (drop 5 bz) of
                      Inl err \<Rightarrow> Failed err
                    | Inr pubkey \<Rightarrow> Returned (SerializeUncompressed ec pubkey))))"

section \<open>The contract payload and the event log (the contract-call test file)\<close>

subsection \<open>\<^verbatim>\<open>fmt.Sprintf\<close> with the verb \<^verbatim>\<open>%064x\<close>\<close>

fun fmt_x :: "nat \<Rightarrow> string" where
  "fmt_x n = (if n < 16 then [hextable ! n] else fmt_x (n div 16) @ [hextable ! (n mod 16)])"

declare fmt_x.simps [simp del]

definition zero_pad :: "nat \<Rightarrow> string \<Rightarrow> string" where
  "zero_pad w ds = replicate (w - length ds) CHR ''0'' @ ds"

text \<open>
  Width 64 with the flag \<open>0\<close>: the digits are padded with zeros, and a negative number
  keeps one of the 64 places for its sign.
\<close>

definition fmt_064x :: "int \<Rightarrow> string" where
  "fmt_064x i =
     (if i < 0 then CHR ''-'' # zero_pad 63 (fmt_x (nat (- i)))
      else zero_pad 64 (fmt_x (nat i)))"

subsection \<open>\<^verbatim>\<open>Test_ContractCall\<close>: building the payload\<close>

text \<open>The four literal stretches of \<^verbatim>\<open>payloadTemplate\<close> between its verbs.\<close>

definition template_head :: string where
  "template_head =
     ''0000000000000000000000000000000000000000000000000000000000000100'' @
     ''0000000000000000000000000000000000000000000000000000000000000180'' @
     ''000000000000000000000000''"

definition template_len1 :: string where
  "template_len1 =
     ''0000000000000000000000000000000000000000000000000000000000000042''"

definition template_pad_len2 :: string where
  "template_pad_len2 =
     ''0000000000000000000000000000000000000000000000000000000000000000'' @
     ''000000000000000000000000000000000000000000000000000000000042''"

definition template_pad :: string where
  "template_pad =
     ''000000000000000000000000000000000000000000000000000000000000''"

text \<open>
  \<^verbatim>\<open>fmt.Sprintf(payloadTemplate, functionSig, fromAddr, recallType, timestamp,
  rHexString, sHexString, v, hexutil.Encode([]byte(fromPubkeyHexString)),
  hexutil.Encode([]byte(toPubkeyHexString)))\<close>.  \<^verbatim>\<open>hexutil.Encode\<close> belongs to
  netcloth-chain and is the parameter \<open>enc\<close>.
\<close>

definition payloadStr ::
  "(byte list \<Rightarrow> string) \<Rightarrow> string \<Rightarrow> string \<Rightarrow> int \<Rightarrow> int \<Rightarrow> string \<Rightarrow> string \<Rightarrow> int
     \<Rightarrow> string \<Rightarrow> string \<Rightarrow> string" where
  "payloadStr enc functionSig fromAddr recallType timestamp rHexString sHexString v
       fromPubkeyHexString toPubkeyHexString =
     functionSig @ template_head @ fromAddr @ fmt_064x recallType @ fmt_064x timestamp
       @ rHexString @ sHexString @ fmt_064x v @ template_len1
       @ enc (bytes_of_string fromPubkeyHexString) @ template_pad_len2
       @ enc (bytes_of_string toPubkeyHexString) @ template_pad"

text \<open>The constants of the test.\<close>

definition functionSig :: string where
  "functionSig = ''aaa88185''"

definition fromPubkeyHexString :: string where
  "fromPubkeyHexString = ''02fc950f1e62b9b2b369448f422808af7d57dbd6ffc0fdbbf2f5849b847285eda8''"

definition toPubkeyHexString :: string where
  "toPubkeyHexString = ''02fc950f1e62b9b2b369448f422808af7d57dbd6ffc0fdbbf2f5849b847285eda8''"

definition fromAddr :: string where
  "fromAddr = ''AC46A441FAA26708B7783EC48D8742C74C9F7927''"

definition recallType :: int where
  "recallType = 1"

definition timestamp :: int where
  "timestamp = 100"

definition rHexString :: string where
  "rHexString = ''830f66a98feb664f312593f0c3fc9b19eb24d67baae894554c1f44ed3aad5a8e''"

definition sHexString :: string where
  "sHexString = ''0fa9a3e5b2a9356c887624750539753cdcc2934867503225e7af5608534444c4''"

definition v :: int where
  "v = 28"

text \<open>
  The payload of the test, with \<^verbatim>\<open>hexutil.Encode\<close> read as plain lower-case
  hexadecimal: the reading under which the string is accepted by the
  \<^verbatim>\<open>hex.DecodeString\<close> call that follows it in the test.
\<close>

definition test_payloadStr :: string where
  "test_payloadStr =
     payloadStr hex_EncodeToString functionSig fromAddr recallType timestamp rHexString
       sHexString v fromPubkeyHexString toPubkeyHexString"

subsection \<open>\<^verbatim>\<open>Test_QueryContractEvents\<close>: reading a log\<close>

text \<open>
  The slice expression \<^verbatim>\<open>s[lo:hi]\<close> on a string panics when \<open>hi\<close> is beyond the
  length (or \<open>lo\<close> beyond \<open>hi\<close>).
\<close>

definition go_slice :: "string \<Rightarrow> nat \<Rightarrow> nat \<Rightarrow> string outcome" where
  "go_slice s lo hi =
     (if length s < hi then Panicked (SliceBoundsOutOfRange hi (length s))
      else if hi < lo then Panicked (SliceBoundsOutOfRange lo hi)
      else Returned (take (hi - lo) (drop lo s)))"

text \<open>
  \<^verbatim>\<open>strconv.ParseUint(s, 16, 64)\<close>.  A digit is \<open>0\<close> to \<open>9\<close> or a letter, read
  through \<^verbatim>\<open>lower(c) = c | ('x' - 'X')\<close>; a value of 16 or more is a syntax error.
  The result is the pair the call returns: on a syntax error the number is 0, on a range
  error it is the largest 64-bit value.
\<close>

definition digit_value :: "char \<Rightarrow> nat option" where
  "digit_value c =
     (let b = (of_char c :: nat); l = b OR 32 in
      if of_char CHR ''0'' \<le> b \<and> b \<le> of_char CHR ''9'' then Some (b - of_char CHR ''0'')
      else if of_char CHR ''a'' \<le> l \<and> l \<le> of_char CHR ''z'' then Some (l - of_char CHR ''a'' + 10)
      else None)"

text \<open>
  The accumulator is a \<^verbatim>\<open>uint64\<close>, kept as a natural number below \<open>2 ^ 64\<close> with the
  wrap-around of the multiplication and of the addition written out.
\<close>

definition maxUint64 :: nat where
  "maxUint64 = 2 ^ 64 - 1"

definition cutoff16 :: nat where
  "cutoff16 = maxUint64 div 16 + 1"

definition maxVal64 :: nat where
  "maxVal64 = (2 ^ 64 - 1) mod 2 ^ 64"

fun ParseUint_loop :: "nat \<Rightarrow> string \<Rightarrow> nat \<times> error option" where
  "ParseUint_loop n [] = (n, None)"
| "ParseUint_loop n (c # cs) =
     (case digit_value c of
        None \<Rightarrow> (0, Some ErrSyntax)
      | Some d \<Rightarrow>
          if d \<ge> 16 then (0, Some ErrSyntax)
          else if n \<ge> cutoff16 then (maxVal64, Some ErrRange)
          else
            let n' = (n * 16) mod 2 ^ 64; n1 = (n' + d) mod 2 ^ 64
            in if n1 < n' \<or> n1 > maxVal64 then (maxVal64, Some ErrRange)
               else ParseUint_loop n1 cs)"

definition ParseUint_16_64 :: "string \<Rightarrow> nat \<times> error option" where
  "ParseUint_16_64 s = (if s = [] then (0, Some ErrSyntax) else ParseUint_loop 0 s)"

record decoded_log =
  revokeTypeStr :: string
  timestampStr :: string
  fromPubkeyStr :: string
  toPubkeyStr :: string
  revokeType :: nat
  timestamp_val :: nat

text \<open>The body of the loop over the logs: four slices, then the two numbers.\<close>

definition decode_item :: "string \<Rightarrow> decoded_log outcome" where
  "decode_item item =
     obind (go_slice item 128 192) (\<lambda>revokeTypeStr'.
     obind (go_slice item 192 256) (\<lambda>timestampStr'.
     obind (go_slice item 320 452) (\<lambda>fromPubkeyStr'.
     obind (go_slice item 576 708) (\<lambda>toPubkeyStr'.
       Returned \<lparr>revokeTypeStr = revokeTypeStr', timestampStr = timestampStr',
                 fromPubkeyStr = fromPubkeyStr', toPubkeyStr = toPubkeyStr',
                 revokeType = fst (ParseUint_16_64 revokeTypeStr'),
                 timestamp_val = fst (ParseUint_16_64 timestampStr')\<rparr>))))"

text \<open>The loop itself: the first panic ends it.\<close>

fun decode_items :: "string list \<Rightarrow> decoded_log list outcome" where
  "decode_items [] = Returned []"
| "decode_items (item # res) =
     obind (decode_item item) (\<lambda>d. obind (decode_items res) (\<lambda>ds. Returned (d # ds)))"
section \<open>A test double of the outside world\<close>

text \<open>
  Concrete stand-ins for the parameters, to run the model on inputs: a file system with
  four files, a JSON decoder that hands the bytes on, a decryption that accepts one
  passphrase, and key functions that only rearrange bytes.
\<close>

definition demo_io :: "(byte list) keystore_io" where
  "demo_io = \<lparr>
     ReadFile = (\<lambda>p. if p = ''a.json'' then Inr [1]
                     else if p = ''b.json'' then Inr [2]
                     else if p = ''short.json'' then Inr [3]
                     else if p = ''empty.json'' then Inr []
                     else Inl (LibError ''no such file or directory'')),
     json_Unmarshal = (\<lambda>bs. if bs = [] then Inl (LibError ''unexpected end of JSON input'')
                            else Inr bs),
     decryptKey = (\<lambda>ek auth.
        if auth \<noteq> ''secret'' then Inl (LibError ''could not decrypt key with given passphrase'')
        else if ek = [3] then Inr (replicate 31 7)
        else Inr (replicate 32 (case ek of [] \<Rightarrow> 0 | b # _ \<Rightarrow> b))),
     UnarmorDecryptPrivKey = (\<lambda>armor pass.
        if pass \<noteq> ''secret'' then Inl (LibError ''invalid account password'')
        else Inr (PrivKeySecp256k1 (replicate 32 (of_nat (length armor) + 4))))
   \<rparr>"

definition demo_tm :: tmcrypto where
  "demo_tm = \<lparr>
     PrivKey_Sign = (\<lambda>sk m. case sk of
         PrivKeySecp256k1 b \<Rightarrow> if m = [] then Inl (LibError ''empty message'') else Inr (b @ m)
       | PrivKeyOther _ _ \<Rightarrow> Inl (LibError ''unsupported key'')),
     PrivKey_PubKey = (\<lambda>sk. case sk of
         PrivKeySecp256k1 b \<Rightarrow> PubKeySecp256k1 (2 # b)
       | PrivKeyOther n b \<Rightarrow> PubKeyOther n b),
     PubKey_Address = (\<lambda>pk. case pk of
         PubKeySecp256k1 b \<Rightarrow> take 20 b
       | PubKeyOther _ b \<Rightarrow> take 20 b),
     PubKey_Bytes = (\<lambda>pk. case pk of
         PubKeySecp256k1 b \<Rightarrow> [235, 90, 233, 135, 33] @ b
       | PubKeyOther _ b \<Rightarrow> b),
     AccAddress_String = (\<lambda>a. ''nch1'' @ string_of_bytes a)
   \<rparr>"

definition demo_loaded :: keyManager where
  "demo_loaded = \<lparr>privKey = Some (PrivKeySecp256k1 (replicate 32 9)),
                  addr = 2 # replicate 19 9, mnemonic = []\<rparr>"


definition demo_once :: keyManager where
  "demo_once = \<lparr>privKey = Some (PrivKeySecp256k1 (replicate 32 1)),
                addr = 2 # replicate 19 1, mnemonic = []\<rparr>"

definition demo_cdc :: "(nat, nat) txcodec" where
  "demo_cdc = \<lparr>
     StdSignMsg_Bytes = (\<lambda>m. bytes_of_string (ChainID m @ Memo m)),
     MarshalBinaryLengthPrefixed = (\<lambda>t.
        if length (tx_Msgs t) = 0 then Inl (LibError ''no messages'')
        else Inr (of_nat (length (tx_Signatures t)) # concat (map Signature (tx_Signatures t))))
   \<rparr>"

definition demo_msg :: "(nat, nat) StdSignMsg" where
  "demo_msg = \<lparr>ChainID = ''nch'', AccountNumber = 7, Sequence = 1, Fee = 5, Msgs = [42],
                Memo = ''m''\<rparr>"

text \<open>
  A stand-in for btcec that keeps a key as its two coordinates' bytes and checks the
  length and the first byte only, and two stand-ins for the hash functions.
\<close>

definition demo_ec :: "(byte list \<times> byte list) btcec" where
  "demo_ec = \<lparr>
     ParsePubKey = (\<lambda>b.
        if length b = 65 \<and> take 1 b = [4] then Inr (take 32 (drop 1 b), drop 33 b)
        else Inl (LibError ''invalid pub key'')),
     SerializeCompressed = (\<lambda>(x, y). (2 OR (last y AND 1)) # x),
     SerializeUncompressed = (\<lambda>(x, y). 4 # x @ y)
   \<rparr>"

definition demo_h :: hashes where
  "demo_h = \<lparr>
     SHA256 = (\<lambda>b. take 32 (rev b @ replicate 32 0)),
     RIPEMD160 = (\<lambda>b. take 20 (b @ replicate 20 0))
   \<rparr>"

text \<open>The key of the comment above \<^verbatim>\<open>GetCompressedPubKey\<close>.\<close>

definition comment_key :: string where
  "comment_key =
     ''04b2bf9a87dd7cf1ad998721ffef00713a4d5fb2bae0316eea04268ae877a0bc'' @
     ''acd41b5b363911a30c0254ca12148d48e3cd4562e3e4b5d8cd3e6d2107a69754'' @
     ''e6''"

text \<open>The payload of the test written out: the selector and 16 words of 32 bytes.\<close>

definition expected_payloadStr :: string where
  "expected_payloadStr =
     ''aaa88185'' @
     ''0000000000000000000000000000000000000000000000000000000000000100'' @
     ''0000000000000000000000000000000000000000000000000000000000000180'' @
     ''000000000000000000000000AC46A441FAA26708B7783EC48D8742C74C9F7927'' @
     ''0000000000000000000000000000000000000000000000000000000000000001'' @
     ''0000000000000000000000000000000000000000000000000000000000000064'' @
     ''830f66a98feb664f312593f0c3fc9b19eb24d67baae894554c1f44ed3aad5a8e'' @
     ''0fa9a3e5b2a9356c887624750539753cdcc2934867503225e7af5608534444c4'' @
     ''000000000000000000000000000000000000000000000000000000000000001c'' @
     ''0000000000000000000000000000000000000000000000000000000000000042'' @
     ''3032666339353066316536326239623262333639343438663432323830386166'' @
     ''3764353764626436666663306664626266326635383439623834373238356564'' @
     ''6138000000000000000000000000000000000000000000000000000000000000'' @
     ''0000000000000000000000000000000000000000000000000000000000000042'' @
     ''3032666339353066316536326239623262333639343438663432323830386166'' @
     ''3764353764626436666663306664626266326635383439623834373238356564'' @
     ''6138000000000000000000000000000000000000000000000000000000000000''"

section \<open>The keystore loaders\<close>

lemma recoveryFromKeyStore_cases:
  "recoveryFromKeyStore io tm k f a = (e, k', cs) \<Longrightarrow>
     (e \<noteq> None \<and> k' = k) \<or>
     (e = None \<and> a \<noteq> [] \<and> (\<exists>kj ek kb. ReadFile io f = Inr kj \<and> json_Unmarshal io kj = Inr ek
         \<and> decryptKey io ek a = Inr kb \<and> length kb = 32
         \<and> k' = k\<lparr>addr := PubKey_Address tm (PrivKey_PubKey tm (PrivKeySecp256k1 kb)),
                  privKey := Some (PrivKeySecp256k1 kb)\<rparr>))"
  by (auto simp: recoveryFromKeyStore_def Let_def split: if_splits sum.splits)

lemma ImportKeystore_cases:
  "ImportKeystore io tm k f a = (e, k', cs) \<Longrightarrow>
     (e \<noteq> None \<and> k' = k) \<or>
     (e = None \<and> a \<noteq> [] \<and> (\<exists>ar sk. ReadFile io f = Inr ar
         \<and> UnarmorDecryptPrivKey io (string_of_bytes ar) a = Inr sk
         \<and> k' = k\<lparr>addr := PubKey_Address tm (PrivKey_PubKey tm sk), privKey := Some sk\<rparr>))"
  by (auto simp: ImportKeystore_def Let_def split: if_splits sum.splits)

text \<open>
  C9.  Whatever the path of the keystore file, both loaders answer an empty passphrase
  with the error "Password is missing " before anything else: the manager is returned as
  it was and no call to the file system, the JSON decoder or a decryption was made.
\<close>

theorem empty_passphrase_rejected_first:
  "recoveryFromKeyStore io tm k keystoreFile [] = (Some (Errorf ''Password is missing ''), k, [])
   \<and> ImportKeystore io tm k keystoreFile [] = (Some (Errorf ''Password is missing ''), k, [])"
  by (simp add: recoveryFromKeyStore_def ImportKeystore_def)

text \<open>
  C5.  On the encrypted-JSON path, when the file is read, parsed and decrypted, the length
  of the decrypted bytes decides: any length other than 32 gives the error
  "Len of Keybytes is not equal to 32 " and the manager is returned as it was; exactly 32
  bytes become the manager's secp256k1 private key, and the address is the address of that
  key's public key.
\<close>

theorem decrypted_length_decides:
  assumes "auth \<noteq> []"
    and "ReadFile io keystoreFile = Inr keyJson"
    and "json_Unmarshal io keyJson = Inr encryptedKey"
    and "decryptKey io encryptedKey auth = Inr keyBytes"
  shows "(length keyBytes \<noteq> 32 \<longrightarrow>
            fst (recoveryFromKeyStore io tm k keystoreFile auth)
              = Some (Errorf ''Len of Keybytes is not equal to 32 '')
          \<and> fst (snd (recoveryFromKeyStore io tm k keystoreFile auth)) = k)
       \<and> (length keyBytes = 32 \<longrightarrow>
            fst (recoveryFromKeyStore io tm k keystoreFile auth) = None
          \<and> fst (snd (recoveryFromKeyStore io tm k keystoreFile auth))
              = k\<lparr>addr := PubKey_Address tm (PrivKey_PubKey tm (PrivKeySecp256k1 keyBytes)),
                  privKey := Some (PrivKeySecp256k1 keyBytes)\<rparr>)"
  using assms by (simp add: recoveryFromKeyStore_def Let_def)

theorem decrypted_length_decides_witness:
  "fst (recoveryFromKeyStore demo_io demo_tm keyManager_zero ''short.json'' ''secret'')
     = Some (Errorf ''Len of Keybytes is not equal to 32 '')
   \<and> fst (snd (recoveryFromKeyStore demo_io demo_tm keyManager_zero ''short.json'' ''secret''))
     = keyManager_zero
   \<and> fst (recoveryFromKeyStore demo_io demo_tm keyManager_zero ''a.json'' ''secret'') = None
   \<and> fst (snd (recoveryFromKeyStore demo_io demo_tm keyManager_zero ''a.json'' ''secret''))
     = \<lparr>privKey = Some (PrivKeySecp256k1 (replicate 32 1)),
        addr = 2 # replicate 19 1, mnemonic = []\<rparr>"
proof -
  have short: "ReadFile demo_io ''short.json'' = Inr [3]"
    "json_Unmarshal demo_io [3] = Inr [3]"
    "decryptKey demo_io [3] ''secret'' = Inr (replicate 31 7)"
    by (simp_all add: demo_io_def)
  have good: "ReadFile demo_io ''a.json'' = Inr [1]"
    "json_Unmarshal demo_io [1] = Inr [1]"
    "decryptKey demo_io [1] ''secret'' = Inr (replicate 32 1)"
    by (simp_all add: demo_io_def)
  have ne: "''secret'' \<noteq> []" by simp
  have a20: "PubKey_Address demo_tm (PrivKey_PubKey demo_tm (PrivKeySecp256k1 (replicate 32 1)))
      = 2 # replicate 19 1"
    by (simp add: demo_tm_def numeral_eq_Suc)
  from decrypted_length_decides [OF ne short, of demo_tm keyManager_zero]
       decrypted_length_decides [OF ne good, of demo_tm keyManager_zero] a20
  show ?thesis by (simp add: keyManager_zero_def)
qed

text \<open>
  C6.  A failing call of either loader (whatever the reason: missing password, unreadable
  file, malformed JSON or armor, failed decryption, wrong key length) returns the manager
  exactly as it was: private key and address are assigned only after the last check.
\<close>

theorem failed_load_leaves_manager:
  "(fst (recoveryFromKeyStore io tm k keystoreFile auth) \<noteq> None \<longrightarrow>
      fst (snd (recoveryFromKeyStore io tm k keystoreFile auth)) = k)
   \<and> (fst (ImportKeystore io tm k keystoreFile auth) \<noteq> None \<longrightarrow>
      fst (snd (ImportKeystore io tm k keystoreFile auth)) = k)"
proof (intro conjI impI)
  obtain e k' cs where r: "recoveryFromKeyStore io tm k keystoreFile auth = (e, k', cs)"
    by (cases "recoveryFromKeyStore io tm k keystoreFile auth") auto
  assume "fst (recoveryFromKeyStore io tm k keystoreFile auth) \<noteq> None"
  with r recoveryFromKeyStore_cases [OF r]
  show "fst (snd (recoveryFromKeyStore io tm k keystoreFile auth)) = k" by auto
next
  obtain e k' cs where r: "ImportKeystore io tm k keystoreFile auth = (e, k', cs)"
    by (cases "ImportKeystore io tm k keystoreFile auth") auto
  assume "fst (ImportKeystore io tm k keystoreFile auth) \<noteq> None"
  with r ImportKeystore_cases [OF r]
  show "fst (snd (ImportKeystore io tm k keystoreFile auth)) = k" by auto
qed

theorem failed_load_leaves_manager_witness:
  "fst (recoveryFromKeyStore demo_io demo_tm demo_loaded ''missing.json'' ''secret'')
      = Some (LibError ''no such file or directory'')
   \<and> fst (snd (recoveryFromKeyStore demo_io demo_tm demo_loaded ''missing.json'' ''secret''))
      = demo_loaded
   \<and> fst (recoveryFromKeyStore demo_io demo_tm demo_loaded ''empty.json'' ''secret'')
      = Some (LibError ''unexpected end of JSON input'')
   \<and> fst (snd (recoveryFromKeyStore demo_io demo_tm demo_loaded ''empty.json'' ''secret''))
      = demo_loaded
   \<and> fst (recoveryFromKeyStore demo_io demo_tm demo_loaded ''a.json'' ''wrong'')
      = Some (LibError ''could not decrypt key with given passphrase'')
   \<and> fst (snd (recoveryFromKeyStore demo_io demo_tm demo_loaded ''a.json'' ''wrong''))
      = demo_loaded
   \<and> fst (ImportKeystore demo_io demo_tm demo_loaded ''a.json'' ''wrong'')
      = Some (Wrap (LibError ''invalid account password'') ''couldn't import private key'')
   \<and> fst (snd (ImportKeystore demo_io demo_tm demo_loaded ''a.json'' ''wrong''))
      = demo_loaded"
proof -
  have e1: "fst (recoveryFromKeyStore demo_io demo_tm demo_loaded ''missing.json'' ''secret'')
      = Some (LibError ''no such file or directory'')"
    by (simp add: recoveryFromKeyStore_def demo_io_def)
  have e2: "fst (recoveryFromKeyStore demo_io demo_tm demo_loaded ''empty.json'' ''secret'')
      = Some (LibError ''unexpected end of JSON input'')"
    by (simp add: recoveryFromKeyStore_def demo_io_def)
  have e3: "fst (recoveryFromKeyStore demo_io demo_tm demo_loaded ''a.json'' ''wrong'')
      = Some (LibError ''could not decrypt key with given passphrase'')"
    by (simp add: recoveryFromKeyStore_def demo_io_def)
  have e4: "fst (ImportKeystore demo_io demo_tm demo_loaded ''a.json'' ''wrong'')
      = Some (Wrap (LibError ''invalid account password'') ''couldn't import private key'')"
    by (simp add: ImportKeystore_def demo_io_def)
  from e1 e2 e3 e4
    failed_load_leaves_manager [of demo_io demo_tm demo_loaded "''missing.json''" "''secret''"]
    failed_load_leaves_manager [of demo_io demo_tm demo_loaded "''empty.json''" "''secret''"]
    failed_load_leaves_manager [of demo_io demo_tm demo_loaded "''a.json''" "''wrong''"]
  show ?thesis by simp
qed

text \<open>
  C4 (as the code has it).  A loader that succeeds sets the private key and the address
  together, the address being that of the new key's public key, and touches nothing else.
  The manager it is called on plays no part: on any other manager the same call succeeds
  too and installs the same key and address.  Nothing rejects a manager that already
  holds a key.
\<close>

theorem load_installs_key_whatever_the_manager:
  "(recoveryFromKeyStore io tm k keystoreFile auth = (None, k', cs) \<longrightarrow>
      (\<exists>sk. privKey k' = Some sk \<and> addr k' = PubKey_Address tm (PrivKey_PubKey tm sk))
      \<and> k' = k\<lparr>addr := addr k', privKey := privKey k'\<rparr>
      \<and> recoveryFromKeyStore io tm k0 keystoreFile auth
          = (None, k0\<lparr>addr := addr k', privKey := privKey k'\<rparr>, cs))
   \<and> (ImportKeystore io tm k keystoreFile auth = (None, k', cs) \<longrightarrow>
      (\<exists>sk. privKey k' = Some sk \<and> addr k' = PubKey_Address tm (PrivKey_PubKey tm sk))
      \<and> k' = k\<lparr>addr := addr k', privKey := privKey k'\<rparr>
      \<and> ImportKeystore io tm k0 keystoreFile auth
          = (None, k0\<lparr>addr := addr k', privKey := privKey k'\<rparr>, cs))"
  by (auto simp: recoveryFromKeyStore_def ImportKeystore_def Let_def
           split: if_splits sum.splits)

theorem load_installs_key_whatever_the_manager_witness:
  "recoveryFromKeyStore demo_io demo_tm keyManager_zero ''b.json'' ''secret''
     = (None, \<lparr>privKey = Some (PrivKeySecp256k1 (replicate 32 2)),
               addr = 2 # replicate 19 2, mnemonic = []\<rparr>,
        [CallReadFile ''b.json'', CallUnmarshal [2], CallDecryptKey [2] ''secret''])
   \<and> recoveryFromKeyStore demo_io demo_tm demo_loaded ''b.json'' ''secret''
     = (None, demo_loaded\<lparr>addr := 2 # replicate 19 2,
                           privKey := Some (PrivKeySecp256k1 (replicate 32 2))\<rparr>,
        [CallReadFile ''b.json'', CallUnmarshal [2], CallDecryptKey [2] ''secret''])"
proof -
  have r: "recoveryFromKeyStore demo_io demo_tm keyManager_zero ''b.json'' ''secret''
     = (None, \<lparr>privKey = Some (PrivKeySecp256k1 (replicate 32 2)),
               addr = 2 # replicate 19 2, mnemonic = []\<rparr>,
        [CallReadFile ''b.json'', CallUnmarshal [2], CallDecryptKey [2] ''secret''])"
    by (simp add: recoveryFromKeyStore_def demo_io_def demo_tm_def keyManager_zero_def
                  numeral_eq_Suc)
  from load_installs_key_whatever_the_manager
         [of demo_io demo_tm keyManager_zero "''b.json''" "''secret''" _ _ demo_loaded] r
  show ?thesis by simp
qed

text \<open>
  A manager loaded from \<^verbatim>\<open>a.json\<close> is loaded again, once by each path: both second
  calls return no error and the key of the first call is gone.
\<close>

theorem second_load_rejected_counterexample:
  "fst (recoveryFromKeyStore demo_io demo_tm keyManager_zero ''a.json'' ''secret'') = None
   \<and> fst (snd (recoveryFromKeyStore demo_io demo_tm keyManager_zero ''a.json'' ''secret''))
       = demo_once
   \<and> privKey demo_once = Some (PrivKeySecp256k1 (replicate 32 1))
   \<and> fst (recoveryFromKeyStore demo_io demo_tm demo_once ''b.json'' ''secret'') = None
   \<and> privKey (fst (snd (recoveryFromKeyStore demo_io demo_tm demo_once ''b.json'' ''secret'')))
       = Some (PrivKeySecp256k1 (replicate 32 2))
   \<and> fst (ImportKeystore demo_io demo_tm demo_once ''b.json'' ''secret'') = None
   \<and> privKey (fst (snd (ImportKeystore demo_io demo_tm demo_once ''b.json'' ''secret'')))
       = Some (PrivKeySecp256k1 (replicate 32 5))"
  by (simp add: recoveryFromKeyStore_def ImportKeystore_def demo_io_def demo_tm_def
                keyManager_zero_def demo_once_def string_of_bytes_def numeral_eq_Suc)

section \<open>Signing\<close>

text \<open>
  C7.  With a private key held, \<open>Sign\<close> is the composition of four steps: the canonical
  bytes of the message, the signature of those bytes under the held key, the pair of the
  key's public key and the signature, and the length-prefixed serialization of the
  transaction made of the message's \<open>Msgs\<close>, \<open>Fee\<close> and \<open>Memo\<close> and that one
  signature.  A failure of the signing or of the serialization is the result of the whole
  call, and then no bytes are returned.
\<close>

theorem Sign_composes:
  assumes "privKey k = Some sk"
  shows "Sign cdc tm k msg =
     (case PrivKey_Sign tm sk (StdSignMsg_Bytes cdc msg) of
        Inl err \<Rightarrow> Failed err
      | Inr sigBytes \<Rightarrow>
         (case MarshalBinaryLengthPrefixed cdc
                 \<lparr>tx_Msgs = Msgs msg, tx_Fee = Fee msg,
                  tx_Signatures = [\<lparr>PubKey = PrivKey_PubKey tm sk, Signature = sigBytes\<rparr>],
                  tx_Memo = Memo msg\<rparr> of
            Inl err \<Rightarrow> Failed err
          | Inr bz \<Rightarrow> Returned bz))"
  using assms
  by (simp add: Sign_def makeSignature_def NewStdTx_def split: sum.splits)

theorem Sign_composes_witness:
  "Sign demo_cdc demo_tm demo_loaded demo_msg
     = Returned (1 # replicate 32 9 @ bytes_of_string ''nchm'')
   \<and> Sign demo_cdc demo_tm demo_loaded (demo_msg\<lparr>ChainID := [], Memo := []\<rparr>)
     = Failed (LibError ''empty message'')
   \<and> Sign demo_cdc demo_tm demo_loaded (demo_msg\<lparr>Msgs := []\<rparr>)
     = Failed (LibError ''no messages'')"
proof -
  have k: "privKey demo_loaded = Some (PrivKeySecp256k1 (replicate 32 9))"
    by (simp add: demo_loaded_def)
  show ?thesis
    using Sign_composes [OF k, of demo_cdc demo_tm demo_msg]
      Sign_composes [OF k, of demo_cdc demo_tm "demo_msg\<lparr>ChainID := [], Memo := []\<rparr>"]
      Sign_composes [OF k, of demo_cdc demo_tm "demo_msg\<lparr>Msgs := []\<rparr>"]
    by (simp add: demo_cdc_def demo_tm_def demo_msg_def bytes_of_string_def)
qed

lemma Sign_without_key_panics:
  "privKey k = None \<Longrightarrow> Sign cdc tm k msg = Panicked NilPointerDereference"
  by (simp add: Sign_def makeSignature_def)

section \<open>Hexadecimal strings\<close>

lemma hex_DecodeString_Inr_iff:
  "(\<exists>bs. hex_DecodeString s = Inr bs) \<longleftrightarrow>
     even (length s) \<and> (\<forall>c \<in> set s. fromHexChar c \<noteq> None)"
  by (induction s rule: hex_DecodeString.induct) (auto split: option.splits sum.splits)

lemma hex_DecodeString_length:
  "hex_DecodeString s = Inr bs \<Longrightarrow> length s = 2 * length bs"
  by (induction s arbitrary: bs rule: hex_DecodeString.induct)
     (auto split: option.splits sum.splits)

lemma hex_DecodeString_Inl_iff:
  "(\<exists>e. hex_DecodeString s = Inl e) \<longleftrightarrow>
     odd (length s) \<or> (\<exists>c \<in> set s. fromHexChar c = None)"
proof -
  have "(\<exists>e. hex_DecodeString s = Inl e) \<longleftrightarrow> \<not> (\<exists>bs. hex_DecodeString s = Inr bs)"
    by (cases "hex_DecodeString s") auto
  then show ?thesis by (auto simp: hex_DecodeString_Inr_iff)
qed

lemma copy_bytes_length: "length (copy_bytes dst src) = length dst"
  by (simp add: copy_bytes_def)

lemma copy_bytes_zero_33:
  "copy_bytes (replicate 33 0) src = take 33 src @ replicate (33 - length src) 0"
  by (simp add: copy_bytes_def)

section \<open>Addresses\<close>

text \<open>
  C1.  For a string that decodes as hexadecimal to bytes btcec accepts as a public key,
  \<open>GetCompressedPubKey\<close> is the compressed serialization of the parsed key and
  \<open>GetCompressedAddress\<close> is RIPEMD160 of SHA256 of exactly those bytes.  With a
  RIPEMD160 of 20 bytes the address has 20 bytes.
\<close>

theorem compressed_address_is_hash_of_compressed_key:
  assumes "hex_DecodeString uncompressedPubKey = Inr raw"
    and "ParsePubKey ec raw = Inr pubkey"
  shows "GetCompressedPubKey ec uncompressedPubKey = Inr (SerializeCompressed ec pubkey)
       \<and> GetCompressedAddress ec h uncompressedPubKey
           = Inr (RIPEMD160 h (SHA256 h (SerializeCompressed ec pubkey)))
       \<and> ((\<forall>x. length (RIPEMD160 h x) = 20) \<longrightarrow>
            (\<exists>a. GetCompressedAddress ec h uncompressedPubKey = Inr a \<and> length a = 20))"
  using assms by (simp add: GetCompressedAddress_def GetCompressedPubKey_def)

theorem compressed_address_is_hash_of_compressed_key_witness:
  "GetCompressedPubKey demo_ec comment_key
     = Inr [2, 178, 191, 154, 135, 221, 124, 241, 173, 153, 135, 33, 255, 239, 0, 113,
            58, 77, 95, 178, 186, 224, 49, 110, 234, 4, 38, 138, 232, 119, 160, 188, 172]
   \<and> GetCompressedAddress demo_ec demo_h comment_key
     = Inr [172, 188, 160, 119, 232, 138, 38, 4, 234, 110, 49, 224, 186, 178, 95, 77, 58,
            113, 0, 239]"
proof -
  have d: "hex_DecodeString comment_key
     = Inr [4, 178, 191, 154, 135, 221, 124, 241, 173, 153, 135, 33, 255, 239, 0, 113,
            58, 77, 95, 178, 186, 224, 49, 110, 234, 4, 38, 138, 232, 119, 160, 188, 172,
            212, 27, 91, 54, 57, 17, 163, 12, 2, 84, 202, 18, 20, 141, 72, 227, 205, 69,
            98, 227, 228, 181, 216, 205, 62, 109, 33, 7, 166, 151, 84, 230]"
    by (simp add: comment_key_def fromHexChar_def)
  have p: "ParsePubKey demo_ec [4, 178, 191, 154, 135, 221, 124, 241, 173, 153, 135, 33, 255, 239, 0, 113,
            58, 77, 95, 178, 186, 224, 49, 110, 234, 4, 38, 138, 232, 119, 160, 188, 172,
            212, 27, 91, 54, 57, 17, 163, 12, 2, 84, 202, 18, 20, 141, 72, 227, 205, 69,
            98, 227, 228, 181, 216, 205, 62, 109, 33, 7, 166, 151, 84, 230]
     = Inr ([178, 191, 154, 135, 221, 124, 241, 173, 153, 135, 33, 255, 239, 0, 113, 58,
            77, 95, 178, 186, 224, 49, 110, 234, 4, 38, 138, 232, 119, 160, 188, 172],
            [212, 27, 91, 54, 57, 17, 163, 12, 2, 84, 202, 18, 20, 141, 72, 227, 205, 69,
            98, 227, 228, 181, 216, 205, 62, 109, 33, 7, 166, 151, 84, 230])"
    by (simp add: demo_ec_def)
  have l: "\<forall>x. length (RIPEMD160 demo_h x) = 20"
    by (auto simp: demo_h_def)
  from compressed_address_is_hash_of_compressed_key [OF d p, of demo_h] l
  show ?thesis by (simp add: demo_ec_def demo_h_def)
qed

lemma hex_DecodeString_odd:
  "odd (length s) \<Longrightarrow> \<forall>c \<in> set s. fromHexChar c \<noteq> None \<Longrightarrow> hex_DecodeString s = Inl ErrLength"
  by (induction s rule: hex_DecodeString.induct) (auto split: option.splits sum.splits)

text \<open>
  C10 (as the code has it).  \<open>GetBech32AddrByPubkeyStr\<close> returns an error exactly for
  the empty string and for the strings \<^verbatim>\<open>hex.DecodeString\<close> rejects: those with a
  character that is no hexadecimal digit, and also those with an odd number of
  characters, which get \<^verbatim>\<open>hex.ErrLength\<close> even when every character is a digit.  For
  every string of an even, positive number of hexadecimal digits, whatever the number of
  bytes it decodes to, the result is the text of the address of the 33-byte key made of
  the first 33 decoded bytes, filled up with zeros; the number of decoded bytes is never
  checked.
\<close>

theorem GetBech32AddrByPubkeyStr_any_length:
  "(pubkeyStr \<noteq> [] \<and> even (length pubkeyStr) \<and> (\<forall>c \<in> set pubkeyStr. fromHexChar c \<noteq> None) \<longrightarrow>
      (\<exists>bs. hex_DecodeString pubkeyStr = Inr bs \<and> length pubkeyStr = 2 * length bs
         \<and> GetBech32AddrByPubkeyStr tm pubkeyStr
              = Inr (AccAddress_String tm (PubKey_Address tm
                       (PubKeySecp256k1 (take 33 bs @ replicate (33 - length bs) 0))))
         \<and> length (take 33 bs @ replicate (33 - length bs) 0) = 33))
   \<and> (pubkeyStr = [] \<longrightarrow> GetBech32AddrByPubkeyStr tm pubkeyStr = Inl (Errorf ''pubkey invalid''))
   \<and> (odd (length pubkeyStr) \<and> (\<forall>c \<in> set pubkeyStr. fromHexChar c \<noteq> None) \<longrightarrow>
        GetBech32AddrByPubkeyStr tm pubkeyStr = Inl ErrLength)
   \<and> ((\<exists>e. GetBech32AddrByPubkeyStr tm pubkeyStr = Inl e) \<longleftrightarrow>
        pubkeyStr = [] \<or> odd (length pubkeyStr) \<or> (\<exists>c \<in> set pubkeyStr. fromHexChar c = None))"
proof (intro conjI impI)
  assume a: "pubkeyStr \<noteq> [] \<and> even (length pubkeyStr)
      \<and> (\<forall>c \<in> set pubkeyStr. fromHexChar c \<noteq> None)"
  then obtain bs where bs: "hex_DecodeString pubkeyStr = Inr bs"
    using hex_DecodeString_Inr_iff [of pubkeyStr] by blast
  from a bs have "GetBech32AddrByPubkeyStr tm pubkeyStr
        = Inr (AccAddress_String tm (PubKey_Address tm
                 (PubKeySecp256k1 (take 33 bs @ replicate (33 - length bs) 0))))"
    by (simp add: GetBech32AddrByPubkeyStr_def copy_bytes_zero_33)
  moreover have "length (take 33 bs @ replicate (33 - length bs) 0) = 33"
    by simp
  moreover note bs hex_DecodeString_length [OF bs]
  ultimately show "\<exists>bs. hex_DecodeString pubkeyStr = Inr bs \<and> length pubkeyStr = 2 * length bs
         \<and> GetBech32AddrByPubkeyStr tm pubkeyStr
              = Inr (AccAddress_String tm (PubKey_Address tm
                       (PubKeySecp256k1 (take 33 bs @ replicate (33 - length bs) 0))))
         \<and> length (take 33 bs @ replicate (33 - length bs) 0) = 33"
    by blast
next
  assume "pubkeyStr = []"
  then show "GetBech32AddrByPubkeyStr tm pubkeyStr = Inl (Errorf ''pubkey invalid'')"
    by (simp add: GetBech32AddrByPubkeyStr_def)
next
  assume a: "odd (length pubkeyStr) \<and> (\<forall>c \<in> set pubkeyStr. fromHexChar c \<noteq> None)"
  then have "hex_DecodeString pubkeyStr = Inl ErrLength"
    by (simp add: hex_DecodeString_odd)
  moreover from a have "pubkeyStr \<noteq> []" by auto
  ultimately show "GetBech32AddrByPubkeyStr tm pubkeyStr = Inl ErrLength"
    by (simp add: GetBech32AddrByPubkeyStr_def)
next
  show "(\<exists>e. GetBech32AddrByPubkeyStr tm pubkeyStr = Inl e) \<longleftrightarrow>
        pubkeyStr = [] \<or> odd (length pubkeyStr) \<or> (\<exists>c \<in> set pubkeyStr. fromHexChar c = None)"
  proof (cases "pubkeyStr = []")
    case True
    then show ?thesis by (simp add: GetBech32AddrByPubkeyStr_def)
  next
    case False
    then have "(\<exists>e. GetBech32AddrByPubkeyStr tm pubkeyStr = Inl e)
        \<longleftrightarrow> (\<exists>e. hex_DecodeString pubkeyStr = Inl e)"
      by (cases "hex_DecodeString pubkeyStr") (simp_all add: GetBech32AddrByPubkeyStr_def Let_def)
    with False show ?thesis by (simp add: hex_DecodeString_Inl_iff)
  qed
qed

theorem GetBech32AddrByPubkeyStr_any_length_witness:
  "GetBech32AddrByPubkeyStr demo_tm ''02Fc''
     = Inr (AccAddress_String demo_tm (PubKey_Address demo_tm
              (PubKeySecp256k1 (2 # 252 # replicate 31 0))))
   \<and> GetBech32AddrByPubkeyStr demo_tm
         ''0a0a0a0a0a0a0a0a0a0a0a0a0a0a0a0a0a0a0a0a0a0a0a0a0a0a0a0a0a0a0a0a0a0a0a''
     = Inr (AccAddress_String demo_tm (PubKey_Address demo_tm
              (PubKeySecp256k1
                 [10, 10, 10, 10, 10, 10, 10, 10, 10, 10, 10, 10, 10, 10, 10, 10, 10, 10,
                 10, 10, 10, 10, 10, 10, 10, 10, 10, 10, 10, 10, 10, 10, 10])))
   \<and> GetBech32AddrByPubkeyStr demo_tm ''0a0'' = Inl ErrLength
   \<and> (\<exists>e. GetBech32AddrByPubkeyStr demo_tm ''0x02'' = Inl e)
   \<and> GetBech32AddrByPubkeyStr demo_tm [] = Inl (Errorf ''pubkey invalid'')"
proof -
  have d: "fromHexChar CHR ''0'' = Some 0" "fromHexChar CHR ''2'' = Some 2"
    "fromHexChar CHR ''F'' = Some 15" "fromHexChar CHR ''c'' = Some 12"
    "fromHexChar CHR ''a'' = Some 10" "fromHexChar CHR ''x'' = None"
    by (simp_all add: fromHexChar_def)
  have short: "hex_DecodeString ''02Fc'' = Inr [2, 252]"
    by (simp add: d)
  have long: "hex_DecodeString
         ''0a0a0a0a0a0a0a0a0a0a0a0a0a0a0a0a0a0a0a0a0a0a0a0a0a0a0a0a0a0a0a0a0a0a0a''
       = Inr [10, 10, 10, 10, 10, 10, 10, 10, 10, 10, 10, 10, 10, 10, 10, 10, 10, 10,
                 10, 10, 10, 10, 10, 10, 10, 10, 10, 10, 10, 10, 10, 10, 10, 10, 10]"
    by (simp add: d)
  from GetBech32AddrByPubkeyStr_any_length [of "''02Fc''" demo_tm] short
  have 1: "GetBech32AddrByPubkeyStr demo_tm ''02Fc''
     = Inr (AccAddress_String demo_tm (PubKey_Address demo_tm
              (PubKeySecp256k1 (2 # 252 # replicate 31 0))))"
    by (simp add: d)
  from GetBech32AddrByPubkeyStr_any_length [of
         "''0a0a0a0a0a0a0a0a0a0a0a0a0a0a0a0a0a0a0a0a0a0a0a0a0a0a0a0a0a0a0a0a0a0a0a''" demo_tm] long
  have 2: "GetBech32AddrByPubkeyStr demo_tm
         ''0a0a0a0a0a0a0a0a0a0a0a0a0a0a0a0a0a0a0a0a0a0a0a0a0a0a0a0a0a0a0a0a0a0a0a''
     = Inr (AccAddress_String demo_tm (PubKey_Address demo_tm
              (PubKeySecp256k1
                 [10, 10, 10, 10, 10, 10, 10, 10, 10, 10, 10, 10, 10, 10, 10, 10, 10, 10,
                 10, 10, 10, 10, 10, 10, 10, 10, 10, 10, 10, 10, 10, 10, 10])))"
    by (simp add: d)
  from GetBech32AddrByPubkeyStr_any_length [of "''0a0''" demo_tm]
  have 3: "GetBech32AddrByPubkeyStr demo_tm ''0a0'' = Inl ErrLength"
    by (simp add: d)
  from GetBech32AddrByPubkeyStr_any_length [of "''0x02''" demo_tm]
  have 4: "\<exists>e. GetBech32AddrByPubkeyStr demo_tm ''0x02'' = Inl e"
    by (simp add: d)
  from GetBech32AddrByPubkeyStr_any_length [of "[]" demo_tm]
  have 5: "GetBech32AddrByPubkeyStr demo_tm [] = Inl (Errorf ''pubkey invalid'')"
    by simp
  from 1 2 3 4 5 show ?thesis by blast
qed

text \<open>
  The three characters of \<^verbatim>\<open>02f\<close> are hexadecimal digits and the string is not
  empty, yet the call fails, with the length error of \<^verbatim>\<open>encoding/hex\<close>.
\<close>

theorem odd_length_digits_counterexample:
  "fromHexChar CHR ''0'' = Some 0 \<and> fromHexChar CHR ''2'' = Some 2
   \<and> fromHexChar CHR ''f'' = Some 15 \<and> ''02f'' \<noteq> []
   \<and> GetBech32AddrByPubkeyStr demo_tm ''02f'' = Inl ErrLength"
  by (simp add: GetBech32AddrByPubkeyStr_def fromHexChar_def)

section \<open>The contract payload and the event log\<close>

lemma obind_Returned [simp]: "obind (Returned x) f = f x"
  by (simp add: obind_def)

lemma obind_Panicked [simp]: "obind (Panicked p) f = Panicked p"
  by (simp add: obind_def)

lemma obind_Failed [simp]: "obind (Failed e) f = Failed e"
  by (simp add: obind_def)

lemma go_slice_short:
  "length s < hi \<Longrightarrow> go_slice s lo hi = Panicked (SliceBoundsOutOfRange hi (length s))"
  by (simp add: go_slice_def)

lemma go_slice_ok:
  "lo \<le> hi \<Longrightarrow> hi \<le> length s \<Longrightarrow> go_slice s lo hi = Returned (take (hi - lo) (drop lo s))"
  by (simp add: go_slice_def)

lemma cutoff16_value: "cutoff16 = 1152921504606846976"
  by (simp add: cutoff16_def maxUint64_def)

lemma maxVal64_value: "maxVal64 = 18446744073709551615"
  by (simp add: maxVal64_def)

lemma fmt_064x_recallType:
  "fmt_064x recallType = ''0000000000000000000000000000000000000000000000000000000000000001''"
  by code_simp

lemma fmt_064x_timestamp:
  "fmt_064x timestamp = ''0000000000000000000000000000000000000000000000000000000000000064''"
  by code_simp

lemma fmt_064x_v:
  "fmt_064x v = ''000000000000000000000000000000000000000000000000000000000000001c''"
  by code_simp

lemma hexutil_Encode_fromPubkey:
  "hex_EncodeToString (bytes_of_string fromPubkeyHexString) =
     ''3032666339353066316536326239623262333639343438663432323830386166'' @
     ''3764353764626436666663306664626266326635383439623834373238356564'' @
     ''6138''"
  by (simp add: hex_EncodeToString_def bytes_of_string_def fromPubkeyHexString_def
        hextable_def)

lemma hexutil_Encode_toPubkey:
  "hex_EncodeToString (bytes_of_string toPubkeyHexString) =
     ''3032666339353066316536326239623262333639343438663432323830386166'' @
     ''3764353764626436666663306664626266326635383439623834373238356564'' @
     ''6138''"
  by (simp add: hex_EncodeToString_def bytes_of_string_def toPubkeyHexString_def
        hextable_def)

lemma test_payloadStr_expected: "test_payloadStr = expected_payloadStr"
  by (simp add: test_payloadStr_def payloadStr_def expected_payloadStr_def functionSig_def
        fromAddr_def rHexString_def sHexString_def template_head_def template_len1_def
        template_pad_len2_def template_pad_def fmt_064x_recallType fmt_064x_timestamp
        fmt_064x_v hexutil_Encode_fromPubkey hexutil_Encode_toPubkey)

subsection \<open>The layout for any arguments\<close>

text \<open>
  What the test shows on its constants holds for every argument of the right size: a
  number below \<open>2 ^ 64\<close> printed with \<^verbatim>\<open>%064x\<close> is read back by \<open>ParseUint\<close>, bytes
  printed in hexadecimal are read back by \<^verbatim>\<open>hex.DecodeString\<close>, and the four fields
  sit at the ranges from 200, 264, 584 and 840 of the payload.
\<close>

lemma digit_value_hextable:
  "d < 16 \<Longrightarrow> digit_value (hextable ! d) = Some d"
proof -
  assume "d < 16"
  then have "d \<in> {0, 1, 2, 3, 4, 5, 6, 7, 8, 9, 10, 11, 12, 13, 14, 15}"
    by (simp add: numeral_eq_Suc less_Suc_eq) 
  then show ?thesis
    by (auto simp: hextable_def digit_value_def)
qed

lemma digit_value_zero: "digit_value CHR ''0'' = Some 0"
  by (simp add: digit_value_def)

lemma ParseUint_loop_digit:
  assumes "d < 16" and "n * 16 + d < 2 ^ 64"
  shows "ParseUint_loop n (hextable ! d # cs) = ParseUint_loop (n * 16 + d) cs"
proof -
  have c: "\<not> cutoff16 \<le> n"
    using assms by (simp add: cutoff16_value)
  have m: "(n * 16) mod 2 ^ 64 = n * 16" "(n * 16 + d) mod 2 ^ 64 = n * 16 + d"
    using assms by simp_all
  show ?thesis
    using assms c m
    by (simp add: digit_value_hextable maxVal64_value Let_def)
qed

lemma ParseUint_loop_zeros:
  "ParseUint_loop 0 (replicate k CHR ''0'' @ cs) = ParseUint_loop 0 cs"
proof (induction k)
  case 0
  then show ?case by simp
next
  case (Suc k)
  have "ParseUint_loop 0 (hextable ! 0 # replicate k CHR ''0'' @ cs)
      = ParseUint_loop (0 * 16 + 0) (replicate k CHR ''0'' @ cs)"
    by (rule ParseUint_loop_digit) simp_all
  with Suc show ?case by (simp add: hextable_def del: ParseUint_loop.simps)
qed

lemma fmt_x_less_16: "n < 16 \<Longrightarrow> fmt_x n = [hextable ! n]"
  by (simp add: fmt_x.simps)

lemma fmt_x_ge_16:
  "\<not> n < 16 \<Longrightarrow> fmt_x n = fmt_x (n div 16) @ [hextable ! (n mod 16)]"
  by (subst fmt_x.simps) simp

lemma fmt_x_not_Nil: "fmt_x n \<noteq> []"
  by (cases "n < 16") (simp_all add: fmt_x_less_16 fmt_x_ge_16)

lemma length_fmt_x: "n < 16 ^ k \<Longrightarrow> 0 < k \<Longrightarrow> length (fmt_x n) \<le> k"
proof (induction n arbitrary: k rule: fmt_x.induct)
  case (1 n)
  show ?case
  proof (cases "n < 16")
    case True
    with "1.prems" show ?thesis by (simp add: fmt_x_less_16)
  next
    case False
    with "1.prems" obtain j where k: "k = Suc j" by (cases k) auto
    with False "1.prems" have j: "0 < j" by (cases j) auto
    from "1.prems" k have "n div 16 < 16 ^ j"
      by (simp add: less_mult_imp_div_less mult.commute)
    from "1.IH" [OF False this j] k False show ?thesis
      by (simp add: fmt_x_ge_16)
  qed
qed

lemma ParseUint_loop_fmt_x:
  "acc * 16 ^ length (fmt_x n) + n < 2 ^ 64 \<Longrightarrow>
     ParseUint_loop acc (fmt_x n @ cs) = ParseUint_loop (acc * 16 ^ length (fmt_x n) + n) cs"
proof (induction n arbitrary: acc cs rule: fmt_x.induct)
  case (1 n)
  show ?case
  proof (cases "n < 16")
    case True
    with "1.prems" have "acc * 16 + n < 2 ^ 64"
      by (simp add: fmt_x_less_16)
    with True have "ParseUint_loop acc (hextable ! n # cs) = ParseUint_loop (acc * 16 + n) cs"
      by (rule ParseUint_loop_digit)
    with True show ?thesis
      by (simp add: fmt_x_less_16 del: ParseUint_loop.simps)
  next
    case False
    let ?q = "n div 16" and ?r = "n mod 16"
    let ?l = "length (fmt_x ?q)"
    have n: "n = ?q * 16 + ?r" by simp
    have len: "length (fmt_x n) = Suc ?l"
      using False by (simp add: fmt_x_ge_16)
    have eq: "acc * 16 ^ length (fmt_x n) + n = (acc * 16 ^ ?l + ?q) * 16 + ?r"
      unfolding len by (simp add: algebra_simps)
    with "1.prems" have b: "(acc * 16 ^ ?l + ?q) * 16 + ?r < 2 ^ 64" by simp
    then have a: "acc * 16 ^ ?l + ?q < 2 ^ 64" by simp
    have "ParseUint_loop acc (fmt_x n @ cs)
        = ParseUint_loop acc (fmt_x ?q @ (hextable ! ?r # cs))"
      using False by (simp add: fmt_x_ge_16 del: ParseUint_loop.simps)
    also have "\<dots> = ParseUint_loop (acc * 16 ^ ?l + ?q) (hextable ! ?r # cs)"
      by (rule "1.IH" [OF False a])
    also have "\<dots> = ParseUint_loop ((acc * 16 ^ ?l + ?q) * 16 + ?r) cs"
      by (rule ParseUint_loop_digit) (use b in simp_all)
    finally show ?thesis by (simp only: eq)
  qed
qed

lemma ParseUint_fmt_064x:
  assumes "0 \<le> i" and "i < 2 ^ 64"
  shows "ParseUint_16_64 (fmt_064x i) = (nat i, None)"
proof -
  let ?n = "nat i"
  from assms have n: "?n < 2 ^ 64"
    by (simp add: nat_less_iff)
  have f: "fmt_064x i = replicate (64 - length (fmt_x ?n)) CHR ''0'' @ fmt_x ?n @ []"
    using assms by (simp add: fmt_064x_def zero_pad_def)
  have ne: "fmt_064x i \<noteq> []"
    unfolding f by (simp add: fmt_x_not_Nil)
  have "ParseUint_loop 0 (fmt_064x i) = ParseUint_loop 0 (fmt_x ?n @ [])"
    unfolding f by (rule ParseUint_loop_zeros)
  also have "\<dots> = ParseUint_loop (0 * 16 ^ length (fmt_x ?n) + ?n) []"
    by (rule ParseUint_loop_fmt_x) (use n in simp)
  finally show ?thesis using ne by (simp add: ParseUint_16_64_def)
qed

lemma length_fmt_064x:
  assumes "0 \<le> i" and "i < 2 ^ 64"
  shows "length (fmt_064x i) = 64"
proof -
  from assms have "nat i < 2 ^ 64" by (simp add: nat_less_iff)
  also have "(2::nat) ^ 64 = 16 ^ 16" by simp
  finally have "length (fmt_x (nat i)) \<le> 16"
    by (rule length_fmt_x) simp
  with assms show ?thesis by (simp add: fmt_064x_def zero_pad_def)
qed


lemma length_templates:
  "length template_head = 152" "length template_len1 = 64"
  "length template_pad_len2 = 124" "length template_pad = 60"
  by (simp_all add: template_head_def template_len1_def template_pad_len2_def
        template_pad_def)

lemma payloadStr_layout:
  assumes "length sig = 8" and "length fa = 40" and "length r = 64" and "length s = 64"
    and "0 \<le> rt" "rt < 2 ^ 64" and "0 \<le> ts" "ts < 2 ^ 64" and "0 \<le> vv" "vv < 2 ^ 64"
    and "length (enc (bytes_of_string fpk)) = 132"
    and "length (enc (bytes_of_string tpk)) = 132"
  shows "go_slice (payloadStr enc sig fa rt ts r s vv fpk tpk) 200 264
           = Returned (fmt_064x rt)"
    and "go_slice (payloadStr enc sig fa rt ts r s vv fpk tpk) 264 328
           = Returned (fmt_064x ts)"
    and "go_slice (payloadStr enc sig fa rt ts r s vv fpk tpk) 584 716
           = Returned (enc (bytes_of_string fpk))"
    and "go_slice (payloadStr enc sig fa rt ts r s vv fpk tpk) 840 972
           = Returned (enc (bytes_of_string tpk))"
    and "length (payloadStr enc sig fa rt ts r s vv fpk tpk) = 1032"
  using assms
  by (simp_all add: payloadStr_def go_slice_def length_templates length_fmt_064x)

lemma fromHexChar_hextable:
  "d < 16 \<Longrightarrow> fromHexChar (hextable ! d) = Some (of_nat d)"
proof -
  assume "d < 16"
  then have "d \<in> {0, 1, 2, 3, 4, 5, 6, 7, 8, 9, 10, 11, 12, 13, 14, 15}"
    by (simp add: numeral_eq_Suc less_Suc_eq)
  then show ?thesis
    by (auto simp: hextable_def fromHexChar_def)
qed

lemma nibbles_of_byte:
  fixes x :: byte
  shows "push_bit 4 (drop_bit 4 x) OR (x AND 15) = x"
proof -
  have "(15 :: byte) = mask 4" by (simp add: mask_eq_exp_minus_1)
  then show ?thesis
    by (simp add: bit_eq_iff bit_simps) (auto simp: not_le)
qed

lemma unat_high_nibble: "unat (drop_bit 4 (x :: byte)) < 16"
proof -
  have "unat x < 2 ^ 8" using unsigned_less [of x] by simp
  moreover have "unat (drop_bit 4 x) = unat x div 16"
    by (simp add: drop_bit_eq_div unat_div)
  ultimately show ?thesis by simp
qed

lemma unat_low_nibble: "unat ((x :: byte) AND 15) < 16"
proof -
  have "x AND 15 \<le> 15"
    by (rule word_and_le1)
  then have "unat (x AND 15) \<le> 15"
    by (simp add: word_le_nat_alt)
  then show ?thesis by simp
qed

lemma hex_DecodeString_EncodeToString: "hex_DecodeString (hex_EncodeToString bs) = Inr bs"
proof (induction bs)
  case Nil
  then show ?case by (simp add: hex_EncodeToString_def)
next
  case (Cons x bs)
  have e: "hex_EncodeToString (x # bs)
      = hextable ! unat (drop_bit 4 x) # hextable ! unat (x AND 15) # hex_EncodeToString bs"
    by (simp add: hex_EncodeToString_def)
  have h: "fromHexChar (hextable ! unat (drop_bit 4 x)) = Some (drop_bit 4 x)"
    using fromHexChar_hextable [OF unat_high_nibble [of x]] by simp
  have l: "fromHexChar (hextable ! unat (x AND 15)) = Some (x AND 15)"
    using fromHexChar_hextable [OF unat_low_nibble [of x]] by simp
  show ?case
    unfolding e using Cons h l by (simp add: nibbles_of_byte)
qed

lemma length_hex_EncodeToString: "length (hex_EncodeToString bs) = 2 * length bs"
  by (induction bs) (simp_all add: hex_EncodeToString_def)

text \<open>
  With the prefix \<^verbatim>\<open>0x\<close> in front of the two blobs the string would hold the
  character \<open>x\<close>, and the call \<^verbatim>\<open>hex.DecodeString(payloadStr)\<close>, which the test
  requires to succeed, would fail.
\<close>

lemma prefixed_blobs_are_rejected:
  "\<exists>e. hex_DecodeString
          (payloadStr (\<lambda>b. ''0x'' @ hex_EncodeToString b) sig fa rt ts r s vv fpk tpk) = Inl e"
proof -
  have "CHR ''x'' \<in> set (payloadStr (\<lambda>b. ''0x'' @ hex_EncodeToString b) sig fa rt ts r s vv fpk tpk)"
    by (simp add: payloadStr_def)
  moreover have "fromHexChar CHR ''x'' = None"
    by (simp add: fromHexChar_def)
  ultimately show ?thesis
    unfolding hex_DecodeString_Inl_iff by blast
qed




lemma expected_slice_128:
  "go_slice expected_payloadStr 128 192
     = Returned ''00000180000000000000000000000000AC46A441FAA26708B7783EC48D8742C7''"
  by (simp add: go_slice_def expected_payloadStr_def)

lemma expected_slice_192:
  "go_slice expected_payloadStr 192 256
     = Returned ''4C9F792700000000000000000000000000000000000000000000000000000000''"
  by (simp add: go_slice_def expected_payloadStr_def)

lemma expected_slice_320:
  "go_slice expected_payloadStr 320 452
     = Returned (''00000064830f66a98feb664f312593f0c3fc9b19eb24d67baae894554c1f44ed'' @
         ''3aad5a8e0fa9a3e5b2a9356c887624750539753cdcc2934867503225e7af5608'' @
         ''5344'')"
  by (simp add: go_slice_def expected_payloadStr_def)

lemma expected_slice_576:
  "go_slice expected_payloadStr 576 708
     = Returned (''0000004230326663393530663165363262396232623336393434386634323238'' @
         ''3038616637643537646264366666633066646262663266353834396238343732'' @
         ''3835'')"
  by (simp add: go_slice_def expected_payloadStr_def)

lemma ParseUint_128:
  "ParseUint_16_64 ''00000180000000000000000000000000AC46A441FAA26708B7783EC48D8742C7''
     = (18446744073709551615, Some ErrRange)"
  by (simp add: ParseUint_16_64_def digit_value_def cutoff16_value maxVal64_value)

lemma ParseUint_192:
  "ParseUint_16_64 ''4C9F792700000000000000000000000000000000000000000000000000000000''
     = (18446744073709551615, Some ErrRange)"
  by (simp add: ParseUint_16_64_def digit_value_def cutoff16_value maxVal64_value)


lemma decode_item_short:
  "length item < 708 \<Longrightarrow>
     decode_item item
       = Panicked (SliceBoundsOutOfRange
           (if length item < 192 then 192 else if length item < 256 then 256
            else if length item < 452 then 452 else 708) (length item))"
  by (simp add: decode_item_def go_slice_def)

lemma decode_item_long:
  "708 \<le> length item \<Longrightarrow>
     decode_item item
       = Returned \<lparr>
           revokeTypeStr = take 64 (drop 128 item), timestampStr = take 64 (drop 192 item),
           fromPubkeyStr = take 132 (drop 320 item), toPubkeyStr = take 132 (drop 576 item),
           revokeType = fst (ParseUint_16_64 (take 64 (drop 128 item))),
           timestamp_val = fst (ParseUint_16_64 (take 64 (drop 192 item)))\<rparr>"
  by (simp add: decode_item_def go_slice_def)

text \<open>
  C3 (as the code has it).  A slice expression whose upper bound is beyond the end of
  the log panics, so a log of fewer than 708 characters is never decoded into short or
  garbled fields: the decoding stops with the run-time panic of the first of the four
  slices that does not fit.  No error value is returned.  When the decoding does return,
  the log has at least 708 characters and the four fields have their full 64, 64, 132
  and 132 characters.
\<close>

theorem short_log_panics:
  "(length s < hi \<longrightarrow> go_slice s lo hi = Panicked (SliceBoundsOutOfRange hi (length s)))
   \<and> (length item < 708 \<longrightarrow>
        decode_item item
          = Panicked (SliceBoundsOutOfRange
              (if length item < 192 then 192 else if length item < 256 then 256
               else if length item < 452 then 452 else 708) (length item)))
   \<and> (\<forall>d. decode_item item = Returned d \<longrightarrow>
          708 \<le> length item
        \<and> revokeTypeStr d = take 64 (drop 128 item) \<and> length (revokeTypeStr d) = 64
        \<and> timestampStr d = take 64 (drop 192 item) \<and> length (timestampStr d) = 64
        \<and> fromPubkeyStr d = take 132 (drop 320 item) \<and> length (fromPubkeyStr d) = 132
        \<and> toPubkeyStr d = take 132 (drop 576 item) \<and> length (toPubkeyStr d) = 132)
   \<and> \<not> is_Failed (decode_item item)"
proof (intro conjI impI allI)
  assume "length s < hi"
  then show "go_slice s lo hi = Panicked (SliceBoundsOutOfRange hi (length s))"
    by (rule go_slice_short)
next
  assume "length item < 708"
  then show "decode_item item
          = Panicked (SliceBoundsOutOfRange
              (if length item < 192 then 192 else if length item < 256 then 256
               else if length item < 452 then 452 else 708) (length item))"
    by (rule decode_item_short)
next
  fix d assume r: "decode_item item = Returned d"
  have len: "708 \<le> length item"
  proof (rule ccontr)
    assume "\<not> 708 \<le> length item"
    then have "length item < 708" by simp
    from decode_item_short [OF this] r show False by simp
  qed
  from decode_item_long [OF len] r
  have d: "d = \<lparr>
           revokeTypeStr = take 64 (drop 128 item), timestampStr = take 64 (drop 192 item),
           fromPubkeyStr = take 132 (drop 320 item), toPubkeyStr = take 132 (drop 576 item),
           revokeType = fst (ParseUint_16_64 (take 64 (drop 128 item))),
           timestamp_val = fst (ParseUint_16_64 (take 64 (drop 192 item)))\<rparr>"
    by simp
  show "708 \<le> length item" by (rule len)
  show "revokeTypeStr d = take 64 (drop 128 item)" by (simp add: d)
  show "length (revokeTypeStr d) = 64" using len by (simp add: d)
  show "timestampStr d = take 64 (drop 192 item)" by (simp add: d)
  show "length (timestampStr d) = 64" using len by (simp add: d)
  show "fromPubkeyStr d = take 132 (drop 320 item)" by (simp add: d)
  show "length (fromPubkeyStr d) = 132" using len by (simp add: d)
  show "toPubkeyStr d = take 132 (drop 576 item)" by (simp add: d)
  show "length (toPubkeyStr d) = 132" using len by (simp add: d)
next
  show "\<not> is_Failed (decode_item item)"
  proof (cases "length item < 708")
    case True
    from decode_item_short [OF True] show ?thesis by simp
  next
    case False
    then have "708 \<le> length item" by simp
    from decode_item_long [OF this] show ?thesis by simp
  qed
qed

theorem short_log_panics_witness:
  "go_slice (replicate 700 CHR ''0'') 576 708 = Panicked (SliceBoundsOutOfRange 708 700)
   \<and> decode_item (replicate 700 CHR ''0'') = Panicked (SliceBoundsOutOfRange 708 700)
   \<and> decode_item (replicate 200 CHR ''0'') = Panicked (SliceBoundsOutOfRange 256 200)
   \<and> length (toPubkeyStr (un_Returned (decode_item (replicate 708 CHR ''0'')))) = 132
   \<and> \<not> is_Failed (decode_item (replicate 700 CHR ''0''))"
proof -
  have r: "decode_item (replicate 708 CHR ''0'')
      = Returned (un_Returned (decode_item (replicate 708 CHR ''0'')))"
    by (simp add: decode_item_long)
  from short_log_panics [where s = "replicate 700 CHR ''0''" and hi = 708 and lo = 576
                            and item = "replicate 700 CHR ''0''"]
    short_log_panics [where s = "[]" and hi = 0 and lo = 0 and item = "replicate 200 CHR ''0''"]
    short_log_panics [where s = "[]" and hi = 0 and lo = 0 and item = "replicate 708 CHR ''0''"]
    r
  show ?thesis by simp
qed

text \<open>
  A log of 700 characters: the call does not return an error value, it panics at the
  fourth slice.
\<close>

theorem short_log_error_counterexample:
  "length (replicate 700 CHR ''0'') < 708
   \<and> \<not> is_Failed (decode_item (replicate 700 CHR ''0''))
   \<and> decode_item (replicate 700 CHR ''0'') = Panicked (SliceBoundsOutOfRange 708 700)"
  by (simp add: decode_item_short)

end
